theory Spec2Isabelle
  imports Complex_Main
begin

section \<open>Data model of the video vision engine\<close>

text \<open>
  The engine of \<^verbatim>\<open>video_vision_engine.py\<close> works on Python dictionaries with a fixed set
  of keys; each of them is a record here. Python floats are modelled as exact reals, Python
  ints as \<open>int\<close> (or \<open>nat\<close> for counters that only count up from zero).
\<close>

type_synonym box = "int \<times> int \<times> int \<times> int"

text \<open>One entry of \<^verbatim>\<open>frame_analysis['objects_detected']\<close> (lines 419-424).\<close>

record detected_object =
  obj_type :: string
  obj_confidence :: real
  obj_position :: "real \<times> real \<times> real \<times> real"
  obj_timestamp :: real

text \<open>One entry of \<^verbatim>\<open>text_found\<close> (lines 471-476).\<close>

record text_instance =
  text_content :: string
  text_confidence :: real
  text_timestamp :: real
  regions_count :: nat

text \<open>The dictionary built by \<^verbatim>\<open>_detect_motion\<close> (lines 485-489).\<close>

record motion_info =
  mi_motion_detected :: bool
  motion_intensity :: real
  motion_areas :: "box list"

text \<open>One entry of \<^verbatim>\<open>scenes_detected\<close> (lines 359-362).\<close>

record scene =
  scene_timestamp :: real
  scene_text :: string

text \<open>
  The \<^verbatim>\<open>watch_result\<close> dictionary of \<^verbatim>\<open>watch_video\<close> (lines 90-103). The keys
  \<^verbatim>\<open>error\<close> and \<^verbatim>\<open>video_duration\<close> are absent until they are assigned, hence options.
\<close>

record watch_result =
  video_url :: string
  frames_analyzed :: nat
  scenes_detected :: "scene list"
  objects_seen :: "detected_object list"
  text_found :: "text_instance list"
  motion_detected :: "motion_info list"
  visual_summary :: string
  comprehension_score :: real
  success :: bool
  error :: "string option"
  video_duration :: "real option"

section \<open>The comprehension score\<close>

text \<open>
  \<^verbatim>\<open>_calculate_comprehension_score\<close> (lines 669-704). The two accumulators \<^verbatim>\<open>score\<close> and
  \<^verbatim>\<open>max_score\<close> are threaded through the five blocks in source order; \<^verbatim>\<open>max_score += 0.2\<close>
  stands outside each \<^verbatim>\<open>if\<close>.
\<close>

definition calculate_comprehension_score :: "watch_result \<Rightarrow> real" where
  "calculate_comprehension_score wr =
    (let score0 = 0; max0 = 0;
         score1 = (if frames_analyzed wr > 0
                   then score0 + min (real (frames_analyzed wr) / 100) 1 * 0.2 else score0);
         max1 = max0 + 0.2;
         score2 = (if scenes_detected wr \<noteq> []
                   then score1 + min (real (length (scenes_detected wr)) / 5) 1 * 0.2 else score1);
         max2 = max1 + 0.2;
         score3 = (if objects_seen wr \<noteq> []
                   then score2 + min (real (length (objects_seen wr)) / 10) 1 * 0.2 else score2);
         max3 = max2 + 0.2;
         score4 = (if text_found wr \<noteq> []
                   then score3 + min (real (length (text_found wr)) / 5) 1 * 0.2 else score3);
         max4 = max3 + 0.2;
         score5 = (if motion_detected wr \<noteq> []
                   then score4 + min (real (length (motion_detected wr)) / 20) 1 * 0.2 else score4);
         max5 = max4 + 0.2
     in if max5 > 0 then score5 / max5 else 0)"

text \<open>
  The five saturating sub-scores of lines 677-701, each at most 0.2, and the normalisation as
  the specification words it: their sum divided by the weights of only those categories that
  had at least one observation.
\<close>

definition sub_scores :: "watch_result \<Rightarrow> real list" where
  "sub_scores wr =
    [min (real (frames_analyzed wr) / 100) 1 * 0.2,
     min (real (length (scenes_detected wr)) / 5) 1 * 0.2,
     min (real (length (objects_seen wr)) / 10) 1 * 0.2,
     min (real (length (text_found wr)) / 5) 1 * 0.2,
     min (real (length (motion_detected wr)) / 20) 1 * 0.2]"

definition applicable_weight :: "watch_result \<Rightarrow> real" where
  "applicable_weight wr =
    (if frames_analyzed wr > 0 then 0.2 else 0) +
    (if scenes_detected wr \<noteq> [] then 0.2 else 0) +
    (if objects_seen wr \<noteq> [] then 0.2 else 0) +
    (if text_found wr \<noteq> [] then 0.2 else 0) +
    (if motion_detected wr \<noteq> [] then 0.2 else 0)"

definition spec_normalized_score :: "watch_result \<Rightarrow> real" where
  "spec_normalized_score wr =
    (if applicable_weight wr > 0 then sum_list (sub_scores wr) / applicable_weight wr else 0)"

text \<open>The initial dictionary of \<^verbatim>\<open>watch_video\<close> (lines 90-103).\<close>

definition initial_watch_result :: "string \<Rightarrow> watch_result" where
  "initial_watch_result url =
    \<lparr> video_url = url, frames_analyzed = 0, scenes_detected = [], objects_seen = [],
      text_found = [], motion_detected = [], visual_summary = [], comprehension_score = 0,
      success = False, error = None, video_duration = None \<rparr>"

section \<open>Frames, the engine state and the per-frame analysis\<close>

text \<open>
  A decoded frame is represented by what the OpenCV and NumPy calls of
  \<^verbatim>\<open>_analyze_single_frame\<close> measure on it: the mean of the grayscale image, the mean of each
  colour channel, the rectangles returned by the face cascade, the bounding rectangles of the
  Canny contours, and, against the previously analysed frame, the number of pixels whose
  thresholded difference is non-zero together with the contours of that difference image (area
  and bounding rectangle).
\<close>

record frame =
  gray_mean :: real
  mean_rgb :: "real \<times> real \<times> real"
  faces :: "box list"
  contour_boxes :: "box list"
  motion_pixels :: nat
  total_pixels :: nat
  motion_contours :: "(real \<times> box) list"

text \<open>The dictionary \<^verbatim>\<open>video_vision_skills\<close> (lines 23-32): eight fixed keys.\<close>

record skills =
  frame_analysis :: real
  motion_detection :: real
  scene_understanding :: real
  text_recognition :: real
  object_tracking :: real
  audio_processing :: real
  content_comprehension :: real
  real_time_learning :: real

text \<open>
  The part of the engine object that the analysis reads or writes: the skill gauges, whether
  \<^verbatim>\<open>self.object_detector\<close> is not \<^verbatim>\<open>None\<close>, and the attribute \<^verbatim>\<open>_last_brightness\<close>, which
  does not exist (\<open>None\<close>) until \<^verbatim>\<open>_detect_scene_change\<close> has run once. The knowledge store
  \<^verbatim>\<open>video_understanding\<close> is only appended to and is read by none of the functions below; it
  is left out.
\<close>

record engine =
  video_vision_skills :: skills
  object_detector :: bool
  last_brightness :: "real option"

definition initial_skills :: skills where
  "initial_skills =
    \<lparr> frame_analysis = 0.3, motion_detection = 0.2, scene_understanding = 0.4,
      text_recognition = 0.3, object_tracking = 0.2, audio_processing = 0.1,
      content_comprehension = 0.3, real_time_learning = 0.2 \<rparr>"

definition initial_engine :: engine where
  "initial_engine =
    \<lparr> video_vision_skills = initial_skills, object_detector = True, last_brightness = None \<rparr>"

record color_entry =
  color :: string
  rgb :: "int \<times> int \<times> int"
  dominance :: real

text \<open>The dictionary \<^verbatim>\<open>frame_analysis\<close> of \<^verbatim>\<open>_analyze_single_frame\<close> (lines 389-398).\<close>

record frame_analysis =
  fa_timestamp :: real
  objects_detected :: "detected_object list"
  fa_text_found :: "text_instance list"
  fa_motion_detected :: "motion_info option"
  scene_change :: bool
  scene_description :: string
  colors_dominant :: "color_entry list"
  brightness :: real

text \<open>Python's \<^verbatim>\<open>str\<close> of a non-negative integer and \<^verbatim>\<open>sep.join(parts)\<close>.\<close>

fun str_nat :: "nat \<Rightarrow> string" where
  "str_nat n =
    (if n < 10 then [char_of (48 + n)] else str_nat (n div 10) @ [char_of (48 + n mod 10)])"

declare str_nat.simps [simp del]

fun join :: "string \<Rightarrow> string list \<Rightarrow> string" where
  "join sep [] = []"
| "join sep [x] = x"
| "join sep (x # y # ys) = x @ sep @ join sep (y # ys)"

text \<open>Python's \<^verbatim>\<open>int(x)\<close> on a float: truncation towards zero.\<close>

definition py_int :: "real \<Rightarrow> int" where
  "py_int x = (if x \<ge> 0 then \<lfloor>x\<rfloor> else \<lceil>x\<rceil>)"

text \<open>\<^verbatim>\<open>processing_config['resolution_scale']\<close> (line 50).\<close>

definition resolution_scale :: real where
  "resolution_scale = 0.5"

text \<open>\<^verbatim>\<open>_detect_text_in_frame\<close> (lines 449-481), on the bounding rectangles of the contours.\<close>

definition text_like :: "box \<Rightarrow> bool" where
  "text_like b =
    (case b of (x, y, w, h) \<Rightarrow>
      (let aspect_ratio = (if h > 0 then real_of_int w / real_of_int h else 0)
       in 20 < w \<and> w < 200 \<and> 10 < h \<and> h < 50 \<and> 1.5 < aspect_ratio \<and> aspect_ratio < 8))"

definition detect_text_in_frame :: "box list \<Rightarrow> real \<Rightarrow> text_instance list" where
  "detect_text_in_frame boxes timestamp =
    (let text_regions = length (filter text_like boxes)
     in if text_regions > 0
        then [\<lparr> text_content = ''Text detected ('' @ str_nat text_regions @ '' regions)'',
                text_confidence = 0.6, text_timestamp = timestamp,
                regions_count = text_regions \<rparr>]
        else [])"

text \<open>\<^verbatim>\<open>_detect_motion\<close> (lines 483-518).\<close>

definition detect_motion :: "frame \<Rightarrow> motion_info" where
  "detect_motion f =
    (let intensity = real (motion_pixels f) / real (total_pixels f)
     in if intensity > 0.01
        then \<lparr> mi_motion_detected = True, motion_intensity = intensity,
               motion_areas = map snd (filter (\<lambda>c. fst c > 100) (motion_contours f)) \<rparr>
        else \<lparr> mi_motion_detected = False, motion_intensity = intensity, motion_areas = [] \<rparr>)"

text \<open>
  The colour vocabulary of \<^verbatim>\<open>_analyze_frame_colors\<close> (lines 532-544): the \<^verbatim>\<open>if\<close>/\<^verbatim>\<open>elif\<close>
  chain in source order.
\<close>

definition dominant_color :: "real \<Rightarrow> real \<Rightarrow> real \<Rightarrow> string" where
  "dominant_color r g b =
    (if r > g \<and> r > b then ''red''
     else if g > r \<and> g > b then ''green''
     else if b > r \<and> b > g then ''blue''
     else if r > 150 \<and> g > 150 \<and> b > 150 then ''white''
     else if r < 50 \<and> g < 50 \<and> b < 50 then ''black''
     else ''mixed'')"

definition analyze_frame_colors :: "frame \<Rightarrow> color_entry list" where
  "analyze_frame_colors f =
    (case mean_rgb f of (r, g, b) \<Rightarrow>
      [\<lparr> color = dominant_color r g b, rgb = (py_int r, py_int g, py_int b), dominance = 1 \<rparr>])"

text \<open>
  \<^verbatim>\<open>_describe_frame_scene\<close> (lines 557-600). \<^verbatim>\<open>list(set(object_types))\<close> is used only for its
  length and, when it has one element, for that element, so its order does not matter.
\<close>

definition describe_frame_scene :: "frame_analysis \<Rightarrow> string" where
  "describe_frame_scene fa =
    (let parts1 = (if brightness fa > 0.7 then [''bright scene'']
                   else if brightness fa < 0.3 then [''dark scene'']
                   else [''moderately lit scene'']);
         unique_objects = remdups (map obj_type (objects_detected fa));
         parts2 = (if objects_detected fa \<noteq> []
                   then (if length unique_objects = 1
                         then parts1 @ [''containing '' @ hd unique_objects]
                         else parts1 @ [''containing '' @ str_nat (length unique_objects)
                                         @ '' different objects''])
                   else parts1);
         parts3 = (case colors_dominant fa of [] \<Rightarrow> parts2
                   | c # _ \<Rightarrow> parts2 @ [''with '' @ color c @ '' tones'']);
         parts4 = (if fa_text_found fa \<noteq> [] then parts3 @ [''with visible text''] else parts3);
         parts5 = (case fa_motion_detected fa of
                     None \<Rightarrow> parts4
                   | Some m \<Rightarrow>
                       if mi_motion_detected m
                       then (if motion_intensity m > 0.1
                             then parts4 @ [''with significant movement'']
                             else parts4 @ [''with subtle movement''])
                       else parts4)
     in if parts5 \<noteq> [] then join '', '' parts5 else ''static scene'')"

text \<open>
  \<^verbatim>\<open>_detect_scene_change\<close> (lines 602-624). It reads the attribute \<^verbatim>\<open>_last_brightness\<close> if it
  exists and then overwrites it; the updated engine is returned with the verdict.
\<close>

definition detect_scene_change :: "frame_analysis \<Rightarrow> engine \<Rightarrow> bool \<times> engine" where
  "detect_scene_change fa eng =
    (let ind0 = (0::nat);
         ind1 = (case last_brightness eng of
                   None \<Rightarrow> ind0
                 | Some lb \<Rightarrow> if \<bar>brightness fa - lb\<bar> > 0.3 then ind0 + 1 else ind0);
         eng' = eng\<lparr>last_brightness := Some (brightness fa)\<rparr>;
         ind2 = (if objects_detected fa \<noteq> [] then ind1 + 1 else ind1);
         ind3 = (case fa_motion_detected fa of
                   None \<Rightarrow> ind2
                 | Some m \<Rightarrow> if motion_intensity m > 0.2 then ind2 + 1 else ind2)
     in (ind3 \<ge> 2, eng'))"

text \<open>
  \<^verbatim>\<open>_analyze_single_frame\<close> (lines 387-447). The \<^verbatim>\<open>try\<close> block only guards the OpenCV calls,
  whose results are the fields of the frame here.
\<close>

definition analyze_single_frame ::
  "engine \<Rightarrow> frame \<Rightarrow> real \<Rightarrow> frame option \<Rightarrow> frame_analysis \<times> engine" where
  "analyze_single_frame eng f timestamp previous_frame =
    (let fa0 = \<lparr> fa_timestamp = timestamp, objects_detected = [], fa_text_found = [],
                 fa_motion_detected = None, scene_change = False, scene_description = [],
                 colors_dominant = [], brightness = 0 \<rparr>;
         fa1 = fa0\<lparr>brightness := gray_mean f / 255\<rparr>;
         fa2 = (if object_detector eng
                then fa1\<lparr>objects_detected :=
                       map (\<lambda>(x, y, w, h).
                              \<lparr> obj_type = ''face'', obj_confidence = 0.8,
                                obj_position = (real_of_int x / resolution_scale,
                                                real_of_int y / resolution_scale,
                                                real_of_int w / resolution_scale,
                                                real_of_int h / resolution_scale),
                                obj_timestamp = timestamp \<rparr>) (faces f)\<rparr>
                else fa1);
         fa3 = fa2\<lparr>fa_text_found := detect_text_in_frame (contour_boxes f) timestamp\<rparr>;
         fa4 = (case previous_frame of
                  None \<Rightarrow> fa3
                | Some p \<Rightarrow>
                    (let motion = detect_motion f
                     in if mi_motion_detected motion
                        then fa3\<lparr>fa_motion_detected := Some motion\<rparr> else fa3));
         fa5 = fa4\<lparr>colors_dominant := analyze_frame_colors f\<rparr>;
         fa6 = fa5\<lparr>scene_description := describe_frame_scene fa5\<rparr>;
         (change, eng') = detect_scene_change fa6 eng
     in (fa6\<lparr>scene_change := change\<rparr>, eng'))"

section \<open>The frame loop\<close>

text \<open>
  What \<^verbatim>\<open>cv2.VideoCapture\<close> gives for a path: whether it opened, the frame rate and frame count
  it reports (after \<^verbatim>\<open>int(...)\<close>), and the frames that successive \<^verbatim>\<open>cap.read()\<close> calls
  return before the first failing read.
\<close>

record video_capture =
  is_opened :: bool
  cap_fps :: int
  cap_frame_count :: int
  cap_frames :: "frame list"

text \<open>
  Python raises \<^verbatim>\<open>ZeroDivisionError\<close> on \<^verbatim>\<open>/\<close> and \<^verbatim>\<open>%\<close> by zero; the model makes every such
  division of the loop a branch. \<open>str_error\<close> is Python's \<^verbatim>\<open>str(e)\<close>.
\<close>

datatype py_error = ZeroDivisionError

definition str_error :: "py_error \<Rightarrow> string" where
  "str_error e = (case e of ZeroDivisionError \<Rightarrow> ''division by zero'')"

text \<open>Lines 331-332: the frame budget and the sampling stride.\<close>

definition max_frames_of :: "int \<Rightarrow> int \<Rightarrow> int \<Rightarrow> int" where
  "max_frames_of total_frames duration_limit fps = min total_frames (duration_limit * fps)"

definition frame_skip_of :: "int \<Rightarrow> int" where
  "frame_skip_of fps = max 1 (fps div 2)"

text \<open>Lines 326: the duration, guarded against a frame rate that is not positive.\<close>

definition video_duration_of :: "int \<Rightarrow> int \<Rightarrow> real" where
  "video_duration_of total_frames fps =
    (if fps > 0 then real_of_int total_frames / real_of_int fps else 0)"

text \<open>The local variables of the \<^verbatim>\<open>while\<close> loop of \<^verbatim>\<open>_analyze_video_content\<close>.\<close>

record loop_state =
  frame_count :: int
  analyzed_frames :: nat
  previous_frame :: "frame option"
  loop_result :: watch_result
  loop_engine :: engine

text \<open>Lines 345-365: the body of \<^verbatim>\<open>if frame_count % frame_skip == 0\<close>, for a non-zero \<open>fps\<close>.\<close>

definition sample_frame :: "int \<Rightarrow> frame \<Rightarrow> loop_state \<Rightarrow> loop_state" where
  "sample_frame fps f s =
    (let timestamp = real_of_int (frame_count s) / real_of_int fps;
         (fa, eng') = analyze_single_frame (loop_engine s) f timestamp (previous_frame s);
         wr = loop_result s;
         wr1 = (if objects_detected fa \<noteq> []
                then wr\<lparr>objects_seen := objects_seen wr @ objects_detected fa\<rparr> else wr);
         wr2 = (if fa_text_found fa \<noteq> []
                then wr1\<lparr>text_found := text_found wr1 @ fa_text_found fa\<rparr> else wr1);
         wr3 = (case fa_motion_detected fa of
                  None \<Rightarrow> wr2
                | Some m \<Rightarrow> wr2\<lparr>motion_detected := motion_detected wr2 @ [m]\<rparr>);
         wr4 = (if scene_change fa
                then wr3\<lparr>scenes_detected := scenes_detected wr3 @
                       [\<lparr> scene_timestamp = timestamp, scene_text = scene_description fa \<rparr>]\<rparr>
                else wr3)
     in s\<lparr> analyzed_frames := analyzed_frames s + 1, previous_frame := Some f,
           loop_result := wr4, loop_engine := eng' \<rparr>)"

text \<open>
  Lines 338-372. The list holds the frames still to be read; the loop ends when the budget is
  used up or a read fails. A division by zero leaves the loop with the error and the state
  reached so far (the dictionary is mutated in place).
\<close>

fun analyze_loop ::
  "int \<Rightarrow> int \<Rightarrow> int \<Rightarrow> frame list \<Rightarrow> loop_state \<Rightarrow> py_error option \<times> loop_state" where
  "analyze_loop fps max_frames frame_skip [] s = (None, s)"
| "analyze_loop fps max_frames frame_skip (f # fs) s =
    (if \<not> frame_count s < max_frames then (None, s)
     else if frame_skip = 0 then (Some ZeroDivisionError, s)
     else if frame_count s mod frame_skip = 0 \<and> fps = 0 then (Some ZeroDivisionError, s)
     else (let s1 = (if frame_count s mod frame_skip = 0 then sample_frame fps f s else s);
               s2 = s1\<lparr>frame_count := frame_count s1 + 1\<rparr>
           in if fps * 5 = 0 then (Some ZeroDivisionError, s2)
              else analyze_loop fps max_frames frame_skip fs s2))"

text \<open>\<^verbatim>\<open>_analyze_video_content\<close> (lines 312-385).\<close>

definition analyze_video_content ::
  "engine \<Rightarrow> video_capture \<Rightarrow> int \<Rightarrow> watch_result \<Rightarrow> watch_result \<times> engine" where
  "analyze_video_content eng cap duration_limit wr =
    (if \<not> is_opened cap then (wr, eng)
     else
      (let fps = cap_fps cap;
           total_frames = cap_frame_count cap;
           duration = video_duration_of total_frames fps;
           max_frames = max_frames_of total_frames duration_limit fps;
           frame_skip = frame_skip_of fps;
           s0 = \<lparr> frame_count = 0, analyzed_frames = 0, previous_frame = None,
                  loop_result = wr, loop_engine = eng \<rparr>
       in case analyze_loop fps max_frames frame_skip (cap_frames cap) s0 of
            (Some e, s) \<Rightarrow> ((loop_result s)\<lparr>error := Some (str_error e)\<rparr>, loop_engine s)
          | (None, s) \<Rightarrow>
              ((loop_result s)\<lparr> frames_analyzed := analyzed_frames s,
                                video_duration := Some duration \<rparr>, loop_engine s)))"

section \<open>Summary, learning and the watch call\<close>

text \<open>
  What the engine takes from outside: the file system (\<^verbatim>\<open>os.path.exists\<close>), \<^verbatim>\<open>urlparse\<close>, the
  download helpers (network and subprocess calls, each returning a path or \<^verbatim>\<open>None\<close>),
  \<^verbatim>\<open>cv2.VideoCapture\<close>, and Python's float formatting for \<^verbatim>\<open>:.1f\<close> and \<^verbatim>\<open>:.2f\<close>.
\<close>

record environment =
  path_exists :: "string \<Rightarrow> bool"
  url_scheme :: "string \<Rightarrow> string"
  download_real_video :: "string \<Rightarrow> string option"
  open_capture :: "string \<Rightarrow> video_capture"
  fmt_1f :: "real \<Rightarrow> string"
  fmt_2f :: "real \<Rightarrow> string"

text \<open>\<^verbatim>\<open>np.mean\<close> of a list.\<close>

definition mean :: "real list \<Rightarrow> real" where
  "mean xs = sum_list xs / real (length xs)"

text \<open>
  Lines 658-665, the motion block of \<^verbatim>\<open>_generate_video_summary\<close>: the sentences it appends
  to \<^verbatim>\<open>summary_parts\<close>. The argument \<open>fmt\<close> is the \<^verbatim>\<open>:.2f\<close> formatting.
\<close>

definition motion_summary :: "(real \<Rightarrow> string) \<Rightarrow> motion_info list \<Rightarrow> string list" where
  "motion_summary fmt motion_events =
    (if motion_events \<noteq> []
     then (let avg_motion = mean (map motion_intensity motion_events)
           in if avg_motion > 0.1
              then [''High motion content with average intensity '' @ fmt avg_motion]
              else [''Moderate motion with average intensity '' @ fmt avg_motion])
     else [])"

text \<open>
  \<^verbatim>\<open>_generate_video_summary\<close> (lines 626-667). \<^verbatim>\<open>list(set(...))\<close> has no fixed order in Python;
  the order of first occurrence is taken here (the engine only ever produces the type
  \<^verbatim>\<open>face\<close>).
\<close>

definition generate_video_summary :: "environment \<Rightarrow> watch_result \<Rightarrow> string" where
  "generate_video_summary env wr =
    (let duration = (case video_duration wr of None \<Rightarrow> 0 | Some d \<Rightarrow> d);
         parts0 = [''Watched '' @ fmt_1f env duration @ '' second video, analyzing ''
                     @ str_nat (frames_analyzed wr) @ '' frames''];
         scenes = scenes_detected wr;
         parts1 = (if scenes \<noteq> []
                   then parts0 @ [''Identified '' @ str_nat (length scenes) @ '' distinct scenes'']
                        @ map (\<lambda>(i, sc). ''Scene '' @ str_nat (i + 1) @ '' at ''
                                  @ fmt_1f env (scene_timestamp sc) @ ''s: '' @ scene_text sc)
                              (zip [0 ..< 3] (take 3 scenes))
                   else parts0);
         object_types = remdups (map obj_type (objects_seen wr));
         parts2 = (if objects_seen wr \<noteq> []
                   then parts1 @ [''Detected '' @ str_nat (length object_types)
                                   @ '' types of objects: '' @ join '', '' object_types]
                   else parts1);
         parts3 = (if text_found wr \<noteq> []
                   then parts2 @ [''Found text in '' @ str_nat (length (text_found wr))
                                   @ '' frames (''
                                   @ str_nat (sum_list (map regions_count (text_found wr)))
                                   @ '' text regions)'']
                   else parts2);
         parts4 = parts3 @ motion_summary (fmt_2f env) (motion_detected wr)
     in join ''. '' parts4 @ ''.'')"

text \<open>\<^verbatim>\<open>_update_video_vision_skills\<close> (lines 834-867), the seven updates in source order.\<close>

definition update_video_vision_skills :: "watch_result \<Rightarrow> skills \<Rightarrow> skills" where
  "update_video_vision_skills wr s =
    (let s1 = (if frames_analyzed wr > 0
               then s\<lparr>frame_analysis := min 1 (frame_analysis s + 0.01)\<rparr> else s);
         s2 = (if scenes_detected wr \<noteq> []
               then s1\<lparr>scene_understanding := min 1 (scene_understanding s1 + 0.02)\<rparr> else s1);
         s3 = (if objects_seen wr \<noteq> []
               then s2\<lparr>object_tracking := min 1 (object_tracking s2 + 0.02)\<rparr> else s2);
         s4 = (if text_found wr \<noteq> []
               then s3\<lparr>text_recognition := min 1 (text_recognition s3 + 0.02)\<rparr> else s3);
         s5 = (if motion_detected wr \<noteq> []
               then s4\<lparr>motion_detection := min 1 (motion_detection s4 + 0.02)\<rparr> else s4);
         s6 = (if comprehension_score wr > 0.5
               then s5\<lparr>content_comprehension := min 1 (content_comprehension s5 + 0.01)\<rparr>
               else s5)
     in s6\<lparr>real_time_learning := min 1 (real_time_learning s6 + 0.01)\<rparr>)"

text \<open>
  \<^verbatim>\<open>_learn_from_video_watching\<close> (lines 706-788): of its effects on the engine, the skill
  update; the appends to the knowledge store are not modelled (see \<open>engine\<close>).
\<close>

definition learn_from_video_watching :: "engine \<Rightarrow> watch_result \<Rightarrow> engine" where
  "learn_from_video_watching eng wr =
    eng\<lparr>video_vision_skills := update_video_vision_skills wr (video_vision_skills eng)\<rparr>"

text \<open>\<^verbatim>\<open>_prepare_video_for_analysis\<close> (lines 141-176).\<close>

definition video_extensions :: "string list" where
  "video_extensions = [''.mp4'', ''.avi'', ''.mov'', ''.mkv'', ''.wmv'', ''.flv'', ''.webm'']"

definition prepare_video_for_analysis :: "environment \<Rightarrow> string \<Rightarrow> string option" where
  "prepare_video_for_analysis env url =
    (if path_exists env url then Some url
     else if url_scheme env url \<in> set [''http'', ''https'']
     then (case download_real_video env url of
             Some p \<Rightarrow> if p \<noteq> [] then Some p else None
           | None \<Rightarrow> None)
     else (case find (\<lambda>ext. path_exists env (url @ ext)) video_extensions of
             Some ext \<Rightarrow> Some (url @ ext)
           | None \<Rightarrow> None))"

text \<open>
  \<^verbatim>\<open>watch_video\<close> (lines 84-139). \<^verbatim>\<open>if video_path:\<close> is false for \<^verbatim>\<open>None\<close> and for the empty
  string. None of the modelled callees raises (each catches its own exceptions), so the
  \<^verbatim>\<open>except\<close> branch of \<^verbatim>\<open>watch_video\<close> has no counterpart here.
\<close>

definition watch_video ::
  "environment \<Rightarrow> engine \<Rightarrow> string \<Rightarrow> int \<Rightarrow> watch_result \<times> engine" where
  "watch_video env eng url duration_limit =
    (let wr0 = initial_watch_result url
     in case prepare_video_for_analysis env url of
          None \<Rightarrow> (wr0\<lparr>error := Some ''Could not prepare video for analysis''\<rparr>, eng)
        | Some video_path \<Rightarrow>
            if video_path = [] then (wr0\<lparr>error := Some ''Could not prepare video for analysis''\<rparr>, eng)
            else
             (let (wr1, eng1) = analyze_video_content eng (open_capture env video_path)
                                  duration_limit wr0;
                  wr2 = wr1\<lparr>visual_summary := generate_video_summary env wr1\<rparr>;
                  wr3 = wr2\<lparr>comprehension_score := calculate_comprehension_score wr2\<rparr>;
                  eng2 = learn_from_video_watching eng1 wr3
              in (wr3\<lparr>success := True\<rparr>, eng2)))"

text \<open>Several \<^verbatim>\<open>watch_video\<close> calls on the same engine object, one after the other.\<close>

fun watch_all :: "environment \<Rightarrow> engine \<Rightarrow> (string \<times> int) list \<Rightarrow> engine" where
  "watch_all env eng [] = eng"
| "watch_all env eng ((url, limit) # rest) = watch_all env (snd (watch_video env eng url limit)) rest"

section \<open>Auxiliary notions for the properties\<close>

text \<open>
  The three motion classes as the specification words them, for comparison with
  \<open>motion_summary\<close>.
\<close>

definition spec_motion_bucket :: "real \<Rightarrow> string" where
  "spec_motion_bucket avg =
    (if avg > 0.1 then ''high'' else if avg > 0.05 then ''moderate'' else ''low'')"

text \<open>The eight gauges of the skill dictionary, and what it means for them to be bounded.\<close>

definition gauges :: "skills \<Rightarrow> real list" where
  "gauges s =
    [frame_analysis s, motion_detection s, scene_understanding s, text_recognition s,
     object_tracking s, audio_processing s, content_comprehension s, real_time_learning s]"

definition skills_in_range :: "skills \<Rightarrow> bool" where
  "skills_in_range s = list_all (\<lambda>g. 0 \<le> g \<and> g \<le> 1) (gauges s)"

definition skills_le :: "skills \<Rightarrow> skills \<Rightarrow> bool" where
  "skills_le s s' = list_all2 (\<le>) (gauges s) (gauges s')"

text \<open>
  Sample inputs: two one-frame clips, a file that exists but cannot be decoded, and a file
  system that holds them. The float formatters of the sample environment are placeholders
  that print a question mark for every number.
\<close>

definition dark_frame :: frame where
  "dark_frame =
    \<lparr> gray_mean = 0, mean_rgb = (0, 0, 0), faces = [], contour_boxes = [],
      motion_pixels = 0, total_pixels = 100, motion_contours = [] \<rparr>"

definition bright_face_frame :: frame where
  "bright_face_frame =
    \<lparr> gray_mean = 255, mean_rgb = (255, 255, 255), faces = [(10, 10, 40, 40)],
      contour_boxes = [], motion_pixels = 0, total_pixels = 100, motion_contours = [] \<rparr>"

definition closed_capture :: video_capture where
  "closed_capture = \<lparr> is_opened = False, cap_fps = 0, cap_frame_count = 0, cap_frames = [] \<rparr>"

definition one_frame_capture :: "frame \<Rightarrow> video_capture" where
  "one_frame_capture f = \<lparr> is_opened = True, cap_fps = 10, cap_frame_count = 1, cap_frames = [f] \<rparr>"

definition example_env :: environment where
  "example_env =
    \<lparr> path_exists = (\<lambda>p. p \<in> set [''dark.mp4'', ''bright.mp4'', ''broken.mp4'', ''notes.txt'']),
      url_scheme = (\<lambda>u. []),
      download_real_video = (\<lambda>u. None),
      open_capture = (\<lambda>p. if p = ''dark.mp4'' then one_frame_capture dark_frame
                            else if p = ''bright.mp4'' then one_frame_capture bright_face_frame
                            else closed_capture),
      fmt_1f = (\<lambda>x. ''?''),
      fmt_2f = (\<lambda>x. ''?'') \<rparr>"

section \<open>Properties of the comprehension score\<close>

lemma score_fixed_denominator:
  "calculate_comprehension_score wr = sum_list (sub_scores wr)"
  by (simp add: calculate_comprehension_score_def sub_scores_def Let_def)

text \<open>
  Claim C1, as amended. The score is the sum of the five saturating sub-scores divided by the
  fixed total weight \<open>5 * 0.2 = 1\<close>: every category adds its weight to the denominator, whether
  or not it had an observation. For a watch in which only 20 frames were analysed the score is
  \<open>0.2 * 0.2 / 1 = 0.04\<close>.
\<close>

theorem C1_score_fixed_total_weight:
  "calculate_comprehension_score wr = sum_list (sub_scores wr) / (5 * 0.2)
   \<and> calculate_comprehension_score ((initial_watch_result u)\<lparr>frames_analyzed := 20\<rparr>) = 0.04"
  by (simp add: calculate_comprehension_score_def sub_scores_def Let_def initial_watch_result_def)

text \<open>
  Claim C1, as stated, fails: with 20 analysed frames and nothing else, the specification's
  normalisation gives \<open>0.2\<close>, the program gives \<open>0.04\<close>.
\<close>

theorem C1_counterexample:
  "spec_normalized_score ((initial_watch_result ''a.mp4'')\<lparr>frames_analyzed := 20\<rparr>) = 0.2
   \<and> calculate_comprehension_score ((initial_watch_result ''a.mp4'')\<lparr>frames_analyzed := 20\<rparr>) = 0.04
   \<and> calculate_comprehension_score ((initial_watch_result ''a.mp4'')\<lparr>frames_analyzed := 20\<rparr>)
       \<noteq> spec_normalized_score ((initial_watch_result ''a.mp4'')\<lparr>frames_analyzed := 20\<rparr>)"
  by (simp add: calculate_comprehension_score_def spec_normalized_score_def sub_scores_def
      applicable_weight_def Let_def initial_watch_result_def)

text \<open>
  Claim C7. For every watch result, the empty one included, the comprehension score lies
  between 0 and 1.
\<close>

theorem C7_score_in_unit_interval:
  "0 \<le> calculate_comprehension_score wr \<and> calculate_comprehension_score wr \<le> 1"
proof -
  have lo: "0 \<le> sum_list (sub_scores wr)"
    unfolding sub_scores_def by (simp add: min_def)
  have "min (real (frames_analyzed wr) / 100) 1 * (0.2::real) \<le> 0.2"
       "min (real (length (scenes_detected wr)) / 5) 1 * (0.2::real) \<le> 0.2"
       "min (real (length (objects_seen wr)) / 10) 1 * (0.2::real) \<le> 0.2"
       "min (real (length (text_found wr)) / 5) 1 * (0.2::real) \<le> 0.2"
       "min (real (length (motion_detected wr)) / 20) 1 * (0.2::real) \<le> 0.2"
    by (simp_all add: min_def)
  then have hi: "sum_list (sub_scores wr) \<le> 1"
    unfolding sub_scores_def by simp
  show ?thesis using lo hi by (simp add: score_fixed_denominator)
qed

section \<open>Properties of the colour classification\<close>

text \<open>
  Claim C10. The comparative red/green/blue rules come first, so white or black is returned
  only when no mean channel strictly exceeds both others; a frame whose three mean channel
  intensities are pairwise distinct is classified red, green or blue, whatever their level.
\<close>

theorem C10_distinct_means_give_primary:
  assumes "mean_rgb f = (r, g, b)"
  shows "(r \<noteq> g \<and> g \<noteq> b \<and> r \<noteq> b \<longrightarrow>
            map color (analyze_frame_colors f) \<in> {[''red''], [''green''], [''blue'']})
       \<and> (map color (analyze_frame_colors f) \<in> {[''white''], [''black'']} \<longrightarrow>
            \<not> (r > g \<and> r > b) \<and> \<not> (g > r \<and> g > b) \<and> \<not> (b > r \<and> b > g))"
  using assms by (auto simp add: analyze_frame_colors_def dominant_color_def)

theorem C10_witness:
  "map color (analyze_frame_colors (dark_frame\<lparr>mean_rgb := (200, 180, 160)\<rparr>)) = [''red'']
   \<and> map color (analyze_frame_colors (dark_frame\<lparr>mean_rgb := (10, 20, 30)\<rparr>)) = [''blue'']
   \<and> map color (analyze_frame_colors bright_face_frame) = [''white'']"
  using C10_distinct_means_give_primary [of "dark_frame\<lparr>mean_rgb := (200, 180, 160)\<rparr>" 200 180 160]
    C10_distinct_means_give_primary [of "dark_frame\<lparr>mean_rgb := (10, 20, 30)\<rparr>" 10 20 30]
    C10_distinct_means_give_primary [of bright_face_frame 255 255 255]
  by (simp add: analyze_frame_colors_def dominant_color_def bright_face_frame_def)

section \<open>Properties of the scene-change rule\<close>

lemma detect_scene_change_skills:
  "video_vision_skills (snd (detect_scene_change fa eng)) = video_vision_skills eng"
  "object_detector (snd (detect_scene_change fa eng)) = object_detector eng"
  "last_brightness (snd (detect_scene_change fa eng)) = Some (brightness fa)"
  by (simp_all add: detect_scene_change_def Let_def)

lemma analyze_single_frame_engine:
  "video_vision_skills (snd (analyze_single_frame eng f ts pf)) = video_vision_skills eng"
  "object_detector (snd (analyze_single_frame eng f ts pf)) = object_detector eng"
  "last_brightness (snd (analyze_single_frame eng f ts pf)) = Some (gray_mean f / 255)"
  by (simp_all add: analyze_single_frame_def Let_def split_def detect_scene_change_skills
      split: option.split)

lemma detect_motion_intensity:
  "motion_intensity (detect_motion f) = real (motion_pixels f) / real (total_pixels f)"
  "mi_motion_detected (detect_motion f) \<longleftrightarrow> real (motion_pixels f) / real (total_pixels f) > 0.01"
  by (simp_all add: detect_motion_def Let_def)

lemma scene_change_against_last:
  assumes "last_brightness eng = Some lb"
  shows "scene_change (fst (analyze_single_frame eng f ts (Some p)))
   \<longleftrightarrow>
   2 \<le> (of_bool (\<bar>gray_mean f / 255 - lb\<bar> > 0.3) :: nat)
       + of_bool (object_detector eng \<and> faces f \<noteq> [])
       + of_bool (real (motion_pixels f) / real (total_pixels f) > 0.2)"
proof -
  define x where "x = real (motion_pixels f) / real (total_pixels f)"
  have weak: "x > 0.2 \<Longrightarrow> x > 0.01" by simp
  have mi: "motion_intensity (detect_motion f) = x"
    and md: "mi_motion_detected (detect_motion f) \<longleftrightarrow> x > 0.01"
    by (simp_all only: detect_motion_intensity x_def)
  show ?thesis
    unfolding x_def [symmetric]
    using assms weak
    by (simp add: analyze_single_frame_def detect_scene_change_def Let_def split_def mi md)
qed

text \<open>
  Claim C4. Let \<open>p\<close> be a sampled frame and \<open>f\<close> the next sampled frame, analysed with \<open>p\<close> as
  its previous frame. A scene boundary is emitted for \<open>f\<close> exactly when at least two of the
  three indicators hold: the brightness differs from that of \<open>p\<close> by more than 0.3, at least
  one object candidate is present in \<open>f\<close>, and the motion intensity of \<open>f\<close> exceeds 0.2.
\<close>

theorem C4_scene_change_two_of_three:
  "scene_change (fst (analyze_single_frame (snd (analyze_single_frame eng p tp pp)) f ts (Some p)))
   \<longleftrightarrow>
   2 \<le> (of_bool (\<bar>gray_mean f / 255 - gray_mean p / 255\<bar> > 0.3) :: nat)
       + of_bool (object_detector eng \<and> faces f \<noteq> [])
       + of_bool (real (motion_pixels f) / real (total_pixels f) > 0.2)"
  using scene_change_against_last [of "snd (analyze_single_frame eng p tp pp)" "gray_mean p / 255" f ts p]
  by (simp add: analyze_single_frame_engine)

section \<open>Properties of the frame loop\<close>

lemma sample_frame_fields:
  "frame_count (sample_frame fps f s) = frame_count s"
  "error (loop_result (sample_frame fps f s)) = error (loop_result s)"
  "video_vision_skills (loop_engine (sample_frame fps f s)) = video_vision_skills (loop_engine s)"
  by (simp_all add: sample_frame_def Let_def split_def analyze_single_frame_engine
      split: option.split)

lemma analyze_loop_no_zero_division:
  "0 \<le> frame_count s \<Longrightarrow> 1 \<le> frame_skip \<Longrightarrow> max_frames \<le> d * fps \<Longrightarrow>
   fst (analyze_loop fps max_frames frame_skip fs s) = None"
proof (induction fs arbitrary: s)
  case Nil
  show ?case by simp
next
  case (Cons f fs)
  show ?case
  proof (cases "frame_count s < max_frames")
    case False
    then show ?thesis by simp
  next
    case True
    with Cons.prems have "0 < d * fps" by linarith
    then have fps: "fps \<noteq> 0" by auto
    let ?s1 = "if frame_count s mod frame_skip = 0 then sample_frame fps f s else s"
    let ?s2 = "?s1\<lparr>frame_count := frame_count ?s1 + 1\<rparr>"
    have "0 \<le> frame_count ?s2" using Cons.prems(1) by (simp add: sample_frame_fields)
    then have "fst (analyze_loop fps max_frames frame_skip fs ?s2) = None"
      using Cons.IH Cons.prems(2,3) by blast
    then show ?thesis using True fps Cons.prems(2) by (simp add: Let_def)
  qed
qed

lemma analyze_loop_preserves:
  "error (loop_result (snd (analyze_loop fps max_frames frame_skip fs s))) = error (loop_result s)
   \<and> video_vision_skills (loop_engine (snd (analyze_loop fps max_frames frame_skip fs s)))
       = video_vision_skills (loop_engine s)"
  by (induction fs arbitrary: s) (simp_all add: Let_def sample_frame_fields)

lemma analyze_loop_empty_budget:
  "\<not> frame_count s < max_frames \<Longrightarrow> analyze_loop fps max_frames frame_skip fs s = (None, s)"
  by (cases fs) simp_all

lemma frame_skip_positive: "1 \<le> frame_skip_of fps"
  by (simp add: frame_skip_of_def)

lemma max_frames_bound: "max_frames_of n d fps \<le> d * fps"
  by (simp add: max_frames_of_def)

lemma analyze_video_content_error:
  "error (fst (analyze_video_content eng cap limit wr)) = error wr"
proof (cases "is_opened cap")
  case False
  then show ?thesis by (simp add: analyze_video_content_def)
next
  case True
  let ?s0 = "\<lparr> frame_count = 0, analyzed_frames = 0, previous_frame = None,
                  loop_result = wr, loop_engine = eng \<rparr>"
  obtain e s where r:
    "analyze_loop (cap_fps cap) (max_frames_of (cap_frame_count cap) limit (cap_fps cap))
       (frame_skip_of (cap_fps cap)) (cap_frames cap) ?s0 = (e, s)"
    by fastforce
  have "fst (analyze_loop (cap_fps cap) (max_frames_of (cap_frame_count cap) limit (cap_fps cap))
       (frame_skip_of (cap_fps cap)) (cap_frames cap) ?s0) = None"
    by (rule analyze_loop_no_zero_division [where d = limit])
       (simp_all add: frame_skip_positive max_frames_bound)
  then have e: "e = None" by (simp add: r)
  have "error (loop_result (snd (analyze_loop (cap_fps cap)
          (max_frames_of (cap_frame_count cap) limit (cap_fps cap))
          (frame_skip_of (cap_fps cap)) (cap_frames cap) ?s0))) = error (loop_result ?s0)"
    by (simp only: analyze_loop_preserves)
  then have "error (loop_result s) = error wr" by (simp add: r)
  then show ?thesis using True
    by (simp add: analyze_video_content_def Let_def r e)
qed

lemma analyze_video_content_skills:
  "video_vision_skills (snd (analyze_video_content eng cap limit wr)) = video_vision_skills eng"
proof (cases "is_opened cap")
  case False
  then show ?thesis by (simp add: analyze_video_content_def)
next
  case True
  let ?s0 = "\<lparr> frame_count = 0, analyzed_frames = 0, previous_frame = None,
                  loop_result = wr, loop_engine = eng \<rparr>"
  obtain e s where r:
    "analyze_loop (cap_fps cap) (max_frames_of (cap_frame_count cap) limit (cap_fps cap))
       (frame_skip_of (cap_fps cap)) (cap_frames cap) ?s0 = (e, s)"
    by fastforce
  have "video_vision_skills (loop_engine (snd (analyze_loop (cap_fps cap)
          (max_frames_of (cap_frame_count cap) limit (cap_fps cap))
          (frame_skip_of (cap_fps cap)) (cap_frames cap) ?s0)))
        = video_vision_skills (loop_engine ?s0)"
    by (simp only: analyze_loop_preserves)
  then have "video_vision_skills (loop_engine s) = video_vision_skills eng" by (simp add: r)
  then show ?thesis using True
    by (cases e) (simp_all add: analyze_video_content_def Let_def r)
qed

text \<open>
  Claim C3, as amended. When the source reports a frame rate of zero, the stride is
  \<open>max 1 (0 div 2) = 1\<close> (there is no fallback of 15), the frame budget is at most zero, so no
  frame is sampled and the duration is reported as 0. No division by zero occurs: for every
  capture the analysis leaves the \<^verbatim>\<open>error\<close> key as it found it.
\<close>

theorem C3_zero_fps_stride_one:
  assumes "is_opened cap" and "cap_fps cap = 0"
  shows "frame_skip_of (cap_fps cap) = 1
       \<and> max_frames_of (cap_frame_count cap) limit (cap_fps cap) \<le> 0
       \<and> video_duration_of (cap_frame_count cap) (cap_fps cap) = 0
       \<and> analyze_video_content eng cap limit wr
           = (wr\<lparr>frames_analyzed := 0, video_duration := Some 0\<rparr>, eng)
       \<and> error (fst (analyze_video_content eng cap' limit' wr)) = error wr"
proof -
  have m: "max_frames_of (cap_frame_count cap) limit 0 \<le> 0"
    by (simp add: max_frames_of_def)
  let ?s0 = "\<lparr> frame_count = 0, analyzed_frames = 0, previous_frame = None,
                  loop_result = wr, loop_engine = eng \<rparr>"
  have "analyze_loop 0 (max_frames_of (cap_frame_count cap) limit 0) (frame_skip_of 0)
          (cap_frames cap) ?s0 = (None, ?s0)"
    by (rule analyze_loop_empty_budget) (use m in simp)
  then have "analyze_video_content eng cap limit wr
           = (wr\<lparr>frames_analyzed := 0, video_duration := Some 0\<rparr>, eng)"
    using assms by (simp add: analyze_video_content_def Let_def video_duration_of_def)
  then show ?thesis using assms m
    by (simp add: frame_skip_of_def video_duration_of_def analyze_video_content_error)
qed

text \<open>Claim C3, as stated, fails: the stride at frame rate zero is 1, not 15.\<close>

theorem C3_counterexample: "frame_skip_of 0 = 1 \<and> frame_skip_of 0 \<noteq> 15"
  by (simp add: frame_skip_of_def)

theorem C3_witness:
  "is_opened (one_frame_capture dark_frame\<lparr>cap_fps := 0\<rparr>)
   \<and> cap_fps (one_frame_capture dark_frame\<lparr>cap_fps := 0\<rparr>) = 0
   \<and> frame_skip_of (cap_fps (one_frame_capture dark_frame\<lparr>cap_fps := 0\<rparr>)) = 1
   \<and> analyze_video_content initial_engine (one_frame_capture dark_frame\<lparr>cap_fps := 0\<rparr>) 300
         (initial_watch_result ''dark.mp4'')
       = ((initial_watch_result ''dark.mp4'')\<lparr>frames_analyzed := 0, video_duration := Some 0\<rparr>,
          initial_engine)"
proof -
  have h1: "is_opened (one_frame_capture dark_frame\<lparr>cap_fps := 0\<rparr>)"
    by (simp add: one_frame_capture_def)
  have h2: "cap_fps (one_frame_capture dark_frame\<lparr>cap_fps := 0\<rparr>) = 0"
    by simp
  show ?thesis
    using h1 h2 C3_zero_fps_stride_one [OF h1 h2] by simp
qed

section \<open>Properties of the skill gauges\<close>

lemma update_skills_fields:
  "frame_analysis (update_video_vision_skills wr s)
     = (if frames_analyzed wr > 0 then min 1 (frame_analysis s + 0.01) else frame_analysis s)"
  "scene_understanding (update_video_vision_skills wr s)
     = (if scenes_detected wr \<noteq> [] then min 1 (scene_understanding s + 0.02)
        else scene_understanding s)"
  "object_tracking (update_video_vision_skills wr s)
     = (if objects_seen wr \<noteq> [] then min 1 (object_tracking s + 0.02) else object_tracking s)"
  "text_recognition (update_video_vision_skills wr s)
     = (if text_found wr \<noteq> [] then min 1 (text_recognition s + 0.02) else text_recognition s)"
  "motion_detection (update_video_vision_skills wr s)
     = (if motion_detected wr \<noteq> [] then min 1 (motion_detection s + 0.02)
        else motion_detection s)"
  "audio_processing (update_video_vision_skills wr s) = audio_processing s"
  "content_comprehension (update_video_vision_skills wr s)
     = (if comprehension_score wr > 0.5 then min 1 (content_comprehension s + 0.01)
        else content_comprehension s)"
  "real_time_learning (update_video_vision_skills wr s) = min 1 (real_time_learning s + 0.01)"
proof -
  define s1 where
    "s1 = (if frames_analyzed wr > 0 then s\<lparr>frame_analysis := min 1 (frame_analysis s + 0.01)\<rparr> else s)"
  have f1:
    "frame_analysis s1 = (if frames_analyzed wr > 0 then min 1 (frame_analysis s + 0.01) else frame_analysis s)"
    "motion_detection s1 = motion_detection s"
    "scene_understanding s1 = scene_understanding s"
    "text_recognition s1 = text_recognition s"
    "object_tracking s1 = object_tracking s"
    "audio_processing s1 = audio_processing s"
    "content_comprehension s1 = content_comprehension s"
    "real_time_learning s1 = real_time_learning s"
    by (simp_all add: s1_def)
  define s2 where
    "s2 = (if scenes_detected wr \<noteq> [] then s1\<lparr>scene_understanding := min 1 (scene_understanding s1 + 0.02)\<rparr> else s1)"
  have f2:
    "frame_analysis s2 = frame_analysis s1"
    "motion_detection s2 = motion_detection s1"
    "scene_understanding s2 = (if scenes_detected wr \<noteq> [] then min 1 (scene_understanding s1 + 0.02) else scene_understanding s1)"
    "text_recognition s2 = text_recognition s1"
    "object_tracking s2 = object_tracking s1"
    "audio_processing s2 = audio_processing s1"
    "content_comprehension s2 = content_comprehension s1"
    "real_time_learning s2 = real_time_learning s1"
    by (simp_all add: s2_def)
  define s3 where
    "s3 = (if objects_seen wr \<noteq> [] then s2\<lparr>object_tracking := min 1 (object_tracking s2 + 0.02)\<rparr> else s2)"
  have f3:
    "frame_analysis s3 = frame_analysis s2"
    "motion_detection s3 = motion_detection s2"
    "scene_understanding s3 = scene_understanding s2"
    "text_recognition s3 = text_recognition s2"
    "object_tracking s3 = (if objects_seen wr \<noteq> [] then min 1 (object_tracking s2 + 0.02) else object_tracking s2)"
    "audio_processing s3 = audio_processing s2"
    "content_comprehension s3 = content_comprehension s2"
    "real_time_learning s3 = real_time_learning s2"
    by (simp_all add: s3_def)
  define s4 where
    "s4 = (if text_found wr \<noteq> [] then s3\<lparr>text_recognition := min 1 (text_recognition s3 + 0.02)\<rparr> else s3)"
  have f4:
    "frame_analysis s4 = frame_analysis s3"
    "motion_detection s4 = motion_detection s3"
    "scene_understanding s4 = scene_understanding s3"
    "text_recognition s4 = (if text_found wr \<noteq> [] then min 1 (text_recognition s3 + 0.02) else text_recognition s3)"
    "object_tracking s4 = object_tracking s3"
    "audio_processing s4 = audio_processing s3"
    "content_comprehension s4 = content_comprehension s3"
    "real_time_learning s4 = real_time_learning s3"
    by (simp_all add: s4_def)
  define s5 where
    "s5 = (if motion_detected wr \<noteq> [] then s4\<lparr>motion_detection := min 1 (motion_detection s4 + 0.02)\<rparr> else s4)"
  have f5:
    "frame_analysis s5 = frame_analysis s4"
    "motion_detection s5 = (if motion_detected wr \<noteq> [] then min 1 (motion_detection s4 + 0.02) else motion_detection s4)"
    "scene_understanding s5 = scene_understanding s4"
    "text_recognition s5 = text_recognition s4"
    "object_tracking s5 = object_tracking s4"
    "audio_processing s5 = audio_processing s4"
    "content_comprehension s5 = content_comprehension s4"
    "real_time_learning s5 = real_time_learning s4"
    by (simp_all add: s5_def)
  define s6 where
    "s6 = (if comprehension_score wr > 0.5 then s5\<lparr>content_comprehension := min 1 (content_comprehension s5 + 0.01)\<rparr> else s5)"
  have f6:
    "frame_analysis s6 = frame_analysis s5"
    "motion_detection s6 = motion_detection s5"
    "scene_understanding s6 = scene_understanding s5"
    "text_recognition s6 = text_recognition s5"
    "object_tracking s6 = object_tracking s5"
    "audio_processing s6 = audio_processing s5"
    "content_comprehension s6 = (if comprehension_score wr > 0.5 then min 1 (content_comprehension s5 + 0.01) else content_comprehension s5)"
    "real_time_learning s6 = real_time_learning s5"
    by (simp_all add: s6_def)
  have u: "update_video_vision_skills wr s
             = s6\<lparr>real_time_learning := min 1 (real_time_learning s6 + 0.01)\<rparr>"
    unfolding update_video_vision_skills_def Let_def s6_def s5_def s4_def s3_def s2_def s1_def
    by (rule refl)
  show "frame_analysis (update_video_vision_skills wr s)
     = (if frames_analyzed wr > 0 then min 1 (frame_analysis s + 0.01) else frame_analysis s)"
    by (simp add: u f6 f5 f4 f3 f2 f1)
  show "scene_understanding (update_video_vision_skills wr s)
     = (if scenes_detected wr \<noteq> [] then min 1 (scene_understanding s + 0.02)
        else scene_understanding s)"
    by (simp add: u f6 f5 f4 f3 f2 f1)
  show "object_tracking (update_video_vision_skills wr s)
     = (if objects_seen wr \<noteq> [] then min 1 (object_tracking s + 0.02) else object_tracking s)"
    by (simp add: u f6 f5 f4 f3 f2 f1)
  show "text_recognition (update_video_vision_skills wr s)
     = (if text_found wr \<noteq> [] then min 1 (text_recognition s + 0.02) else text_recognition s)"
    by (simp add: u f6 f5 f4 f3 f2 f1)
  show "motion_detection (update_video_vision_skills wr s)
     = (if motion_detected wr \<noteq> [] then min 1 (motion_detection s + 0.02)
        else motion_detection s)"
    by (simp add: u f6 f5 f4 f3 f2 f1)
  show "audio_processing (update_video_vision_skills wr s) = audio_processing s"
    by (simp add: u f6 f5 f4 f3 f2 f1)
  show "content_comprehension (update_video_vision_skills wr s)
     = (if comprehension_score wr > 0.5 then min 1 (content_comprehension s + 0.01)
        else content_comprehension s)"
    by (simp add: u f6 f5 f4 f3 f2 f1)
  show "real_time_learning (update_video_vision_skills wr s) = min 1 (real_time_learning s + 0.01)"
    by (simp add: u f6 f5 f4 f3 f2 f1)
qed

lemma update_skills_in_range:
  "skills_in_range s \<Longrightarrow> skills_in_range (update_video_vision_skills wr s)"
  by (simp add: skills_in_range_def gauges_def update_skills_fields)

lemma update_skills_le:
  "skills_in_range s \<Longrightarrow> skills_le s (update_video_vision_skills wr s)"
  by (simp add: skills_in_range_def skills_le_def gauges_def update_skills_fields)

lemma skills_le_refl: "skills_le s s"
  by (simp add: skills_le_def gauges_def)

lemma skills_le_trans: "skills_le a b \<Longrightarrow> skills_le b c \<Longrightarrow> skills_le a c"
  by (simp add: skills_le_def gauges_def)

lemma watch_video_skills:
  "video_vision_skills (snd (watch_video env eng url limit)) = video_vision_skills eng
   \<or> (\<exists>wr. video_vision_skills (snd (watch_video env eng url limit))
             = update_video_vision_skills wr (video_vision_skills eng))"
proof (cases "prepare_video_for_analysis env url")
  case None
  then show ?thesis by (simp add: watch_video_def)
next
  case (Some path)
  show ?thesis
  proof (cases "path = []")
    case True
    with Some show ?thesis by (simp add: watch_video_def)
  next
    case False
    obtain wr1 eng1 where a:
      "analyze_video_content eng (open_capture env path) limit (initial_watch_result url)
         = (wr1, eng1)"
      by fastforce
    have "video_vision_skills eng1 = video_vision_skills eng"
      using analyze_video_content_skills
        [of eng "open_capture env path" limit "initial_watch_result url"]
      by (simp add: a)
    then have "\<exists>wr. video_vision_skills (snd (watch_video env eng url limit))
             = update_video_vision_skills wr (video_vision_skills eng)"
      using Some False by (simp add: watch_video_def Let_def a learn_from_video_watching_def) blast
    then show ?thesis by blast
  qed
qed

lemma watch_video_in_range:
  assumes "skills_in_range (video_vision_skills eng)"
  shows "skills_in_range (video_vision_skills (snd (watch_video env eng url limit)))
   \<and> skills_le (video_vision_skills eng) (video_vision_skills (snd (watch_video env eng url limit)))"
  using watch_video_skills [of env eng url limit] assms
    update_skills_in_range [OF assms] update_skills_le [OF assms] skills_le_refl [of "video_vision_skills eng"]
  by (elim disjE exE) simp_all

lemma watch_all_in_range:
  "skills_in_range (video_vision_skills eng) \<Longrightarrow>
   skills_in_range (video_vision_skills (watch_all env eng reqs))
   \<and> skills_le (video_vision_skills eng) (video_vision_skills (watch_all env eng reqs))"
proof (induction reqs arbitrary: eng)
  case Nil
  then show ?case by (simp add: skills_le_refl)
next
  case (Cons req reqs)
  obtain url limit where req: "req = (url, limit)" by (cases req)
  let ?eng1 = "snd (watch_video env eng url limit)"
  have one: "skills_in_range (video_vision_skills ?eng1)"
            "skills_le (video_vision_skills eng) (video_vision_skills ?eng1)"
    using watch_video_in_range [OF Cons.prems] by simp_all
  have rest: "skills_in_range (video_vision_skills (watch_all env ?eng1 reqs))"
             "skills_le (video_vision_skills ?eng1) (video_vision_skills (watch_all env ?eng1 reqs))"
    using Cons.IH [OF one(1)] by simp_all
  show ?case using rest one(2) skills_le_trans by (auto simp add: req)
qed

lemma initial_skills_in_range: "skills_in_range initial_skills"
  by (simp add: skills_in_range_def gauges_def initial_skills_def)

text \<open>
  Claim C6. Starting from gauges in \<open>[0, 1]\<close> (the constructor's values are), after any sequence
  of \<^verbatim>\<open>watch_video\<close> calls every gauge is still in \<open>[0, 1]\<close> and none is lower than before. One
  update moves each of the five category gauges only when its category was non-empty, by 0.01
  (frame analysis) or 0.02, clamped at 1, and decreases no gauge.
\<close>

theorem C6_skill_gauges_bounded_monotone:
  assumes "skills_in_range (video_vision_skills eng)" and "skills_in_range s"
  shows "skills_in_range (video_vision_skills (watch_all env eng reqs))
       \<and> skills_le (video_vision_skills eng) (video_vision_skills (watch_all env eng reqs))
       \<and> skills_in_range (update_video_vision_skills wr s)
       \<and> skills_le s (update_video_vision_skills wr s)
       \<and> frame_analysis (update_video_vision_skills wr s)
           = (if frames_analyzed wr > 0 then min 1 (frame_analysis s + 0.01) else frame_analysis s)
       \<and> scene_understanding (update_video_vision_skills wr s)
           = (if scenes_detected wr \<noteq> [] then min 1 (scene_understanding s + 0.02)
              else scene_understanding s)
       \<and> object_tracking (update_video_vision_skills wr s)
           = (if objects_seen wr \<noteq> [] then min 1 (object_tracking s + 0.02) else object_tracking s)
       \<and> text_recognition (update_video_vision_skills wr s)
           = (if text_found wr \<noteq> [] then min 1 (text_recognition s + 0.02) else text_recognition s)
       \<and> motion_detection (update_video_vision_skills wr s)
           = (if motion_detected wr \<noteq> [] then min 1 (motion_detection s + 0.02)
              else motion_detection s)"
  using watch_all_in_range [OF assms(1), of env reqs] update_skills_in_range [OF assms(2), of wr]
    update_skills_le [OF assms(2), of wr] update_skills_fields [of wr s]
  by blast

theorem C6_witness:
  "skills_in_range (video_vision_skills initial_engine)
   \<and> skills_in_range (video_vision_skills
        (watch_all example_env initial_engine [(''dark.mp4'', 300), (''bright.mp4'', 300)]))
   \<and> skills_le (video_vision_skills initial_engine) (video_vision_skills
        (watch_all example_env initial_engine [(''dark.mp4'', 300), (''bright.mp4'', 300)]))"
proof -
  have h: "skills_in_range (video_vision_skills initial_engine)"
    by (simp add: initial_engine_def initial_skills_in_range)
  show ?thesis
    using h C6_skill_gauges_bounded_monotone [OF h h] by blast
qed

section \<open>Properties of the watch call\<close>

lemma prepare_existing:
  "path_exists env url \<Longrightarrow> prepare_video_for_analysis env url = Some url"
  by (simp add: prepare_video_for_analysis_def)

text \<open>
  Claim C2 asks that a watch whose video handle cannot be opened ends as an explicit failure.
  The program does otherwise: \<^verbatim>\<open>_analyze_video_content\<close> returns the untouched dictionary and
  \<^verbatim>\<open>watch_video\<close> then sets \<^verbatim>\<open>success\<close>. For a file that exists but cannot be decoded, the
  result has \<^verbatim>\<open>success = True\<close>, no \<^verbatim>\<open>error\<close> key and zero analysed frames.
\<close>

theorem C2_unopenable_file_reported_as_success:
  "success (fst (watch_video example_env initial_engine ''broken.mp4'' 300)) = True
   \<and> error (fst (watch_video example_env initial_engine ''broken.mp4'' 300)) = None
   \<and> frames_analyzed (fst (watch_video example_env initial_engine ''broken.mp4'' 300)) = 0"
proof -
  have p: "prepare_video_for_analysis example_env ''broken.mp4'' = Some ''broken.mp4''"
    by (rule prepare_existing) (simp add: example_env_def)
  have c: "open_capture example_env ''broken.mp4'' = closed_capture"
    by (simp add: example_env_def)
  show ?thesis
    by (simp add: watch_video_def p c closed_capture_def analyze_video_content_def
        initial_watch_result_def Let_def)
qed

text \<open>A watch of a clip that yields exactly one frame at 10 frames per second.\<close>

lemma watch_one_frame:
  assumes "prepare_video_for_analysis env url = Some path" and "path \<noteq> []"
    and "open_capture env path = one_frame_capture f"
  shows "scenes_detected (fst (watch_video env eng url 300))
           = (if scene_change (fst (analyze_single_frame eng f 0 None))
              then [\<lparr> scene_timestamp = 0,
                      scene_text = scene_description (fst (analyze_single_frame eng f 0 None)) \<rparr>]
              else [])"
    and "last_brightness (snd (watch_video env eng url 300)) = Some (gray_mean f / 255)"
    and "object_detector (snd (watch_video env eng url 300)) = object_detector eng"
proof -
  obtain fa eng' where a: "analyze_single_frame eng f 0 None = (fa, eng')"
    by fastforce
  have e: "last_brightness eng' = Some (gray_mean f / 255)" "object_detector eng' = object_detector eng"
    using analyze_single_frame_engine [of eng f 0 None] by (simp_all add: a)
  let ?s0 = "\<lparr> frame_count = 0, analyzed_frames = 0, previous_frame = None,
               loop_result = initial_watch_result url, loop_engine = eng \<rparr>"
  have s: "sample_frame 10 f ?s0 =
      \<lparr> frame_count = 0, analyzed_frames = 1, previous_frame = Some f,
        loop_result =
          (let wr = initial_watch_result url;
               wr1 = (if objects_detected fa \<noteq> []
                      then wr\<lparr>objects_seen := objects_seen wr @ objects_detected fa\<rparr> else wr);
               wr2 = (if fa_text_found fa \<noteq> []
                      then wr1\<lparr>text_found := text_found wr1 @ fa_text_found fa\<rparr> else wr1);
               wr3 = (case fa_motion_detected fa of
                        None \<Rightarrow> wr2
                      | Some m \<Rightarrow> wr2\<lparr>motion_detected := motion_detected wr2 @ [m]\<rparr>);
               wr4 = (if scene_change fa
                      then wr3\<lparr>scenes_detected := scenes_detected wr3 @
                             [\<lparr> scene_timestamp = 0, scene_text = scene_description fa \<rparr>]\<rparr>
                      else wr3)
           in wr4),
        loop_engine = eng' \<rparr>"
    by (simp add: sample_frame_def a Let_def)
  have sc: "scenes_detected (loop_result (sample_frame 10 f ?s0))
            = (if scene_change fa then [\<lparr> scene_timestamp = 0, scene_text = scene_description fa \<rparr>] else [])"
    unfolding s by (simp add: Let_def initial_watch_result_def split: option.split)
  have l: "analyze_loop 10 1 5 [f] ?s0 = (None, (sample_frame 10 f ?s0)\<lparr>frame_count := 1\<rparr>)"
    by (simp add: s Let_def)
  have av: "analyze_video_content eng (one_frame_capture f) 300 (initial_watch_result url)
        = ((loop_result (sample_frame 10 f ?s0))\<lparr>frames_analyzed := 1,
              video_duration := Some (1 / 10)\<rparr>, eng')"
    by (simp add: analyze_video_content_def one_frame_capture_def max_frames_of_def
        frame_skip_of_def video_duration_of_def l Let_def) (simp add: s)
  show "scenes_detected (fst (watch_video env eng url 300))
           = (if scene_change (fst (analyze_single_frame eng f 0 None))
              then [\<lparr> scene_timestamp = 0,
                      scene_text = scene_description (fst (analyze_single_frame eng f 0 None)) \<rparr>]
              else [])"
    using assms by (simp add: watch_video_def av Let_def sc a)
  show "last_brightness (snd (watch_video env eng url 300)) = Some (gray_mean f / 255)"
    using assms by (simp add: watch_video_def av Let_def learn_from_video_watching_def e)
  show "object_detector (snd (watch_video env eng url 300)) = object_detector eng"
    using assms by (simp add: watch_video_def av Let_def learn_from_video_watching_def e)
qed

lemma first_frame_scene_change:
  "scene_change (fst (analyze_single_frame eng f ts None))
   \<longleftrightarrow> object_detector eng \<and> faces f \<noteq> []
       \<and> (case last_brightness eng of None \<Rightarrow> False
           | Some lb \<Rightarrow> \<bar>gray_mean f / 255 - lb\<bar> > 0.3)"
  by (simp add: analyze_single_frame_def detect_scene_change_def Let_def split_def
      split: option.split)

text \<open>
  Claim C5 asks that the scene state be reset at the start of every watch. The program keeps
  \<^verbatim>\<open>_last_brightness\<close> on the engine object and never resets it: after watching a dark clip
  it holds that clip's last brightness, and the first frame of the next clip (bright, with a
  face) is then reported as a scene boundary at timestamp 0, which the same clip watched by a
  fresh engine does not produce.
\<close>

theorem C5_last_brightness_carried_into_next_watch:
  "last_brightness (snd (watch_video example_env initial_engine ''dark.mp4'' 300)) = Some 0
   \<and> map scene_timestamp (scenes_detected (fst (watch_video example_env
          (snd (watch_video example_env initial_engine ''dark.mp4'' 300)) ''bright.mp4'' 300)))
       = [0]
   \<and> scenes_detected (fst (watch_video example_env initial_engine ''bright.mp4'' 300)) = []"
proof -
  have pd: "prepare_video_for_analysis example_env ''dark.mp4'' = Some ''dark.mp4''"
    by (rule prepare_existing) (simp add: example_env_def)
  have pb: "prepare_video_for_analysis example_env ''bright.mp4'' = Some ''bright.mp4''"
    by (rule prepare_existing) (simp add: example_env_def)
  have cd: "open_capture example_env ''dark.mp4'' = one_frame_capture dark_frame"
    by (simp add: example_env_def)
  have cb: "open_capture example_env ''bright.mp4'' = one_frame_capture bright_face_frame"
    by (simp add: example_env_def)
  let ?eng1 = "snd (watch_video example_env initial_engine ''dark.mp4'' 300)"
  have lb: "last_brightness ?eng1 = Some 0"
    using watch_one_frame(2) [OF pd _ cd, of initial_engine] by (simp add: dark_frame_def)
  have od: "object_detector ?eng1"
    using watch_one_frame(3) [OF pd _ cd, of initial_engine] by (simp add: initial_engine_def)
  have stale: "scene_change (fst (analyze_single_frame ?eng1 bright_face_frame 0 None))"
    by (simp add: first_frame_scene_change lb od) (simp add: bright_face_frame_def)
  have fresh: "\<not> scene_change (fst (analyze_single_frame initial_engine bright_face_frame 0 None))"
    by (simp add: first_frame_scene_change initial_engine_def)
  have a: "map scene_timestamp (scenes_detected (fst (watch_video example_env ?eng1 ''bright.mp4'' 300)))
       = [0]"
    using watch_one_frame(1) [OF pb _ cb, of ?eng1] stale by simp
  have b: "scenes_detected (fst (watch_video example_env initial_engine ''bright.mp4'' 300)) = []"
    using watch_one_frame(1) [OF pb _ cb, of initial_engine] fresh by simp
  show ?thesis using lb a b by simp
qed

text \<open>
  Claim C9 asks that every internal failure leaves \<^verbatim>\<open>success\<close> false and an \<^verbatim>\<open>error\<close> string in
  the result. A path that cannot be resolved does so; a file that exists but cannot be opened
  does not: the result then has \<^verbatim>\<open>success = True\<close>, no \<^verbatim>\<open>error\<close> key and score 0.
\<close>

theorem C9_failure_without_error_key:
  "success (fst (watch_video example_env initial_engine ''notes.txt'' 60)) = True
   \<and> error (fst (watch_video example_env initial_engine ''notes.txt'' 60)) = None
   \<and> comprehension_score (fst (watch_video example_env initial_engine ''notes.txt'' 60)) = 0
   \<and> success (fst (watch_video example_env initial_engine ''missing.mp4'' 60)) = False
   \<and> error (fst (watch_video example_env initial_engine ''missing.mp4'' 60))
       = Some ''Could not prepare video for analysis''"
proof -
  have p: "prepare_video_for_analysis example_env ''notes.txt'' = Some ''notes.txt''"
    by (rule prepare_existing) (simp add: example_env_def)
  have c: "open_capture example_env ''notes.txt'' = closed_capture"
    by (simp add: example_env_def)
  have m: "prepare_video_for_analysis example_env ''missing.mp4'' = None"
    by (simp add: prepare_video_for_analysis_def example_env_def video_extensions_def)
  have 1: "success (fst (watch_video example_env initial_engine ''notes.txt'' 60)) = True
   \<and> error (fst (watch_video example_env initial_engine ''notes.txt'' 60)) = None
   \<and> comprehension_score (fst (watch_video example_env initial_engine ''notes.txt'' 60)) = 0"
    by (simp add: watch_video_def p c closed_capture_def analyze_video_content_def
        initial_watch_result_def Let_def calculate_comprehension_score_def)
  have 2: "success (fst (watch_video example_env initial_engine ''missing.mp4'' 60)) = False
   \<and> error (fst (watch_video example_env initial_engine ''missing.mp4'' 60))
       = Some ''Could not prepare video for analysis''"
    by (simp add: watch_video_def m initial_watch_result_def)
  show ?thesis using 1 2 by simp
qed

section \<open>Properties of the visual summary\<close>

lemma join_snoc:
  "join sep (xs @ [x]) = (if xs = [] then x else join sep xs @ sep @ x)"
  by (induction sep xs rule: join.induct) simp_all

lemma motion_summary_nonempty:
  "motion_events \<noteq> [] \<Longrightarrow>
   motion_summary fmt motion_events =
     [(if mean (map motion_intensity motion_events) > 0.1
       then ''High motion content'' else ''Moderate motion'')
      @ '' with average intensity '' @ fmt (mean (map motion_intensity motion_events))]"
  by (simp add: motion_summary_def Let_def)

text \<open>
  Claim C8, as amended. When at least one motion event was recorded, the visual summary ends
  with the motion sentence, and the average intensity is put into two classes: above 0.1 it
  is reported as \<^verbatim>\<open>High motion content\<close>, otherwise (also at or below 0.05) as
  \<^verbatim>\<open>Moderate motion\<close>. There is no third class.
\<close>

theorem C8_motion_two_classes:
  assumes "motion_detected wr \<noteq> []"
  shows "\<exists>prefix. generate_video_summary env wr =
           prefix
           @ (if mean (map motion_intensity (motion_detected wr)) > 0.1
              then ''High motion content'' else ''Moderate motion'')
           @ '' with average intensity ''
           @ fmt_2f env (mean (map motion_intensity (motion_detected wr))) @ ''.''"
proof -
  obtain parts3 where g:
    "generate_video_summary env wr
       = join ''. '' (parts3 @ motion_summary (fmt_2f env) (motion_detected wr)) @ ''.''"
    by (simp add: generate_video_summary_def Let_def)
  show ?thesis
    unfolding g motion_summary_nonempty [OF assms] join_snoc
    by (cases "parts3 = []") (simp_all del: append_assoc add: append_assoc [symmetric])
qed

theorem C8_witness:
  "motion_detected ((initial_watch_result ''clip.mp4'')\<lparr>motion_detected :=
        [\<lparr> mi_motion_detected = True, motion_intensity = 0.02, motion_areas = [] \<rparr>]\<rparr>) \<noteq> []
   \<and> (\<exists>prefix. generate_video_summary example_env
         ((initial_watch_result ''clip.mp4'')\<lparr>motion_detected :=
            [\<lparr> mi_motion_detected = True, motion_intensity = 0.02, motion_areas = [] \<rparr>]\<rparr>)
        = prefix @ ''Moderate motion with average intensity ?.'')"
proof -
  let ?wr = "(initial_watch_result ''clip.mp4'')\<lparr>motion_detected :=
        [\<lparr> mi_motion_detected = True, motion_intensity = 0.02, motion_areas = [] \<rparr>]\<rparr>"
  have h: "motion_detected ?wr \<noteq> []" by simp
  show ?thesis
    using h C8_motion_two_classes [OF h, of example_env]
    by (simp add: mean_def example_env_def)
qed

text \<open>
  Claim C8, as stated, fails: an average intensity of 0.02 falls into the specification's
  class \<^verbatim>\<open>low\<close>, and the program reports it as \<^verbatim>\<open>Moderate motion\<close>.
\<close>

theorem C8_counterexample:
  "spec_motion_bucket (mean (map motion_intensity
       [\<lparr> mi_motion_detected = True, motion_intensity = 0.02, motion_areas = [] \<rparr>])) = ''low''
   \<and> motion_summary (\<lambda>x. ''0.02'')
       [\<lparr> mi_motion_detected = True, motion_intensity = 0.02, motion_areas = [] \<rparr>]
     = [''Moderate motion with average intensity 0.02'']"
  by (simp add: spec_motion_bucket_def motion_summary_def mean_def)

end
